theory Spec2Isabelle
  imports Main
begin

section \<open>Data model of the output module\<close>

text \<open>
  The module \<^verbatim>\<open>agentpy/output.py\<close> keeps simulation output in a \<^verbatim>\<open>DataDict\<close>, an ordered
  dictionary with attribute access whose values are tables (pandas data frames), plain
  dictionaries, nested \<^verbatim>\<open>DataDict\<close>s or scalars.

  A table cell holds a scalar Python value.  \<open>PNaN\<close> is the missing-value marker pandas
  fills holes with.
\<close>

datatype pyval = PNone | PInt int | PStr string | PNaN

text \<open>
  A data frame: the names of its index levels (\<open>None\<close> for an unnamed level), its column
  labels, and its rows.  A row is the pair of its index tuple and its data cells.
  A frame has a \<^verbatim>\<open>MultiIndex\<close> when it has at least two index levels.
\<close>

record table =
  index_names :: "string option list"
  columns :: "string list"
  rows :: "(pyval list \<times> pyval list) list"

definition wf_table :: "table \<Rightarrow> bool" where
  "wf_table df \<longleftrightarrow>
     list_all (\<lambda>r. length (fst r) = length (index_names df)
                  \<and> length (snd r) = length (columns df)) (rows df)"

datatype pyobj =
    VScalar pyval
  | VTable table
  | VDict "(string \<times> pyobj) list"
  | VDataDict "(string \<times> pyobj) list"

type_synonym pydict = "(string \<times> pyobj) list"

text \<open>
  Exceptions.  \<open>KeyError\<close>, \<open>AttributeError\<close>, \<open>TypeError\<close>, \<open>ValueError\<close> and
  \<open>AgentpyError\<close> carry their message, the two file errors the path; \<open>LabelsNotFound\<close>
  is the \<^verbatim>\<open>KeyError\<close> pandas raises for labels that are not in an axis, carrying those
  labels; \<open>Unmodelled\<close> marks a library call outside the part of pandas that is modelled
  here.
\<close>

datatype exn =
    KeyError string
  | LabelsNotFound "string list"
  | AttributeError string
  | TypeError string
  | ValueError string
  | AssertionError string
  | InvalidIndexError string
  | AgentpyError string
  | UndefinedVariableError string
  | FileNotFoundError string
  | FileExistsError string
  | Unmodelled string

subsection \<open>Strings\<close>

text \<open>Python's \<^verbatim>\<open>repr\<close> of a string without quotes or escapes, and of a list of
  such strings, as an f-string prints them.\<close>

definition quoted :: "string \<Rightarrow> string" where
  "quoted s = [CHR 0x27] @ s @ [CHR 0x27]"

fun join :: "string \<Rightarrow> string list \<Rightarrow> string" where
  "join sep [] = []"
| "join sep [s] = s"
| "join sep (s # t # ss) = s @ sep @ join sep (t # ss)"

definition repr_list :: "string list \<Rightarrow> string" where
  "repr_list ss = ''['' @ join '', '' (map quoted ss) @ '']''"

subsection \<open>Dictionaries\<close>

text \<open>
  A Python dictionary keeps insertion order; assigning to an existing key keeps the key's
  position.
\<close>

fun dict_set :: "(string \<times> 'a) list \<Rightarrow> string \<Rightarrow> 'a \<Rightarrow> (string \<times> 'a) list" where
  "dict_set [] k v = [(k, v)]"
| "dict_set ((k', v') # d) k v =
     (if k' = k then (k, v) # d else (k', v') # dict_set d k v)"

definition getitem :: "(string \<times> 'a) list \<Rightarrow> string \<Rightarrow> exn + 'a" where
  "getitem d k = (case map_of d k of None \<Rightarrow> Inl (KeyError k) | Some v \<Rightarrow> Inr v)"

text \<open>
  Modelled from the spec: \<^verbatim>\<open>AttrDict\<close> (module \<^verbatim>\<open>tools\<close>) is not part of the sources at
  hand.  Attribute access and subscript access read the same store; a missing attribute
  raises \<^verbatim>\<open>AttributeError\<close>.
\<close>

definition getattr :: "(string \<times> 'a) list \<Rightarrow> string \<Rightarrow> exn + 'a" where
  "getattr d k = (case map_of d k of None \<Rightarrow> Inl (AttributeError k) | Some v \<Rightarrow> Inr v)"

subsection \<open>The pandas operations the module calls\<close>

text \<open>\<^verbatim>\<open>df[k] = v\<close> for a scalar \<open>v\<close>: the column \<open>k\<close> is overwritten with \<open>v\<close> in every
  row, or appended when the frame has no such column.\<close>

definition setitem :: "table \<Rightarrow> string \<Rightarrow> pyval \<Rightarrow> table" where
  "setitem df k v =
     (if k \<in> set (columns df)
      then df\<lparr>rows := map (\<lambda>(ix, d). (ix, map2 (\<lambda>c x. if c = k then v else x) (columns df) d))
                         (rows df)\<rparr>
      else df\<lparr>columns := columns df @ [k],
              rows := map (\<lambda>(ix, d). (ix, d @ [v])) (rows df)\<rparr>)"

text \<open>The cell of a row under a column label (the first column of that label).\<close>

definition cell :: "string list \<Rightarrow> pyval list \<Rightarrow> string \<Rightarrow> pyval option" where
  "cell cols d k = map_of (zip cols d) k"

text \<open>Labels in order of first appearance.\<close>

fun uniq :: "'a list \<Rightarrow> 'a list" where
  "uniq [] = []"
| "uniq (x # xs) = x # filter (\<lambda>y. y \<noteq> x) (uniq xs)"

text \<open>The name of each index level when all frames agree on it, else no name.\<close>

fun unanimous_names :: "string option list list \<Rightarrow> string option list" where
  "unanimous_names [] = []"
| "unanimous_names (ns # nss) =
     map (\<lambda>i. if list_all (\<lambda>ms. ms ! i = ns ! i) nss then ns ! i else None) [0..<length ns]"

text \<open>The data cells of a row of \<open>df\<close>, laid out under the labels \<open>cols\<close>; holes are \<open>PNaN\<close>.\<close>

definition realign :: "string list \<Rightarrow> table \<Rightarrow> (pyval list \<times> pyval list) list" where
  "realign cols df =
     map (\<lambda>(ix, d). (ix, map (\<lambda>c. case cell (columns df) d c of None \<Rightarrow> PNaN | Some x \<Rightarrow> x) cols))
         (rows df)"

text \<open>
  \<^verbatim>\<open>pd.concat(objs)\<close> on a list of frames: rows are stacked in list order, the columns are
  those of the frames when all frames have the same columns, and else the union of the
  frames' columns in order of first appearance, missing cells being holes (the union needs
  each frame's labels to be distinct).  An empty list is an error.  Stacking frames whose
  indexes differ in their number of levels is outside the model.
\<close>

definition pd_concat :: "table list \<Rightarrow> exn + table" where
  "pd_concat dfs =
     (if dfs = [] then Inl (ValueError ''No objects to concatenate'')
      else if \<not> list_all (\<lambda>df. length (index_names df) = length (index_names (hd dfs))) dfs
      then Inl (Unmodelled ''concat of indexes with different numbers of levels'')
      else if list_all (\<lambda>df. columns df = columns (hd dfs)) dfs
      then Inr \<lparr>index_names = unanimous_names (map index_names dfs),
                  columns = columns (hd dfs),
                  rows = concat (map rows dfs)\<rparr>
      else if \<not> list_all (\<lambda>df. distinct (columns df)) dfs
      then Inl (InvalidIndexError ''Reindexing only valid with uniquely valued Index objects'')
      else let cols = uniq (concat (map columns dfs))
           in Inr \<lparr>index_names = unanimous_names (map index_names dfs),
                   columns = cols,
                   rows = concat (map (realign cols) dfs)\<rparr>)"

text \<open>\<^verbatim>\<open>df.reset_index(drop=True)\<close>: the index is replaced by the unnamed range
  \<open>0, 1, ...\<close>.\<close>

definition reset_index_drop :: "table \<Rightarrow> table" where
  "reset_index_drop df =
     df\<lparr>index_names := [None],
        rows := map2 (\<lambda>i r. ([PInt (int i)], snd r)) [0..<length (rows df)] (rows df)\<rparr>"

text \<open>\<^verbatim>\<open>df.index.name = name\<close> on a one-level index.\<close>

definition set_index_name :: "table \<Rightarrow> string \<Rightarrow> table" where
  "set_index_name df name = df\<lparr>index_names := [Some name]\<rparr>"

section \<open>The parameter combiner\<close>

text \<open>
  \<^verbatim>\<open>for k, v in self.parameters.fixed.items(): dfp0[k] = v\<close>.  The frame \<open>dfp0\<close> is the
  object stored under \<^verbatim>\<open>parameters.varied\<close>, so each assignment changes the stored frame.
  Assigning a value that is not a scalar is outside the model; the assignments made
  before it stay.
\<close>

fun broadcast_fixed :: "table \<Rightarrow> pydict \<Rightarrow> exn option \<times> table" where
  "broadcast_fixed df [] = (None, df)"
| "broadcast_fixed df ((k, v) # kvs) =
     (case v of
        VScalar x \<Rightarrow> broadcast_fixed (setitem df k x) kvs
      | _ \<Rightarrow> (Some (Unmodelled ''column assignment of a non-scalar''), df))"

text \<open>The items of a mapping object, or the error of calling \<^verbatim>\<open>.items()\<close> on another
  value.\<close>

fun items :: "pyobj \<Rightarrow> exn + pydict" where
  "items (VDict d) = Inr d"
| "items (VDataDict d) = Inr d"
| "items _ = Inl (AttributeError ''items'')"

text \<open>\<^verbatim>\<open>obj[k]\<close> on a value read from the container.  Label lookup in a frame is not
  needed by the module.\<close>

fun subscript :: "pyobj \<Rightarrow> string \<Rightarrow> exn + pyobj" where
  "subscript (VDict d) k = getitem d k"
| "subscript (VDataDict d) k = getitem d k"
| "subscript (VTable df) k = Inl (Unmodelled ''label lookup in a frame'')"
| "subscript (VScalar x) k = Inl (TypeError ''object is not subscriptable'')"

text \<open>\<^verbatim>\<open>pd.DataFrame({k: [v] for k, v in d.items()})\<close>: one row, one column per key,
  under the range index.\<close>

fun scalars :: "pydict \<Rightarrow> (pyval list) option" where
  "scalars [] = Some []"
| "scalars ((k, v) # kvs) =
     (case v of
        VScalar x \<Rightarrow> (case scalars kvs of None \<Rightarrow> None | Some xs \<Rightarrow> Some (x # xs))
      | _ \<Rightarrow> None)"

definition one_row_frame :: "pydict \<Rightarrow> exn + table" where
  "one_row_frame d =
     (case scalars d of
        None \<Rightarrow> Inl (Unmodelled ''frame cell that is not a scalar'')
      | Some xs \<Rightarrow> Inr \<lparr>index_names = [None], columns = map fst d, rows = [([PInt 0], xs)]\<rparr>)"

text \<open>
  The first half of \<^verbatim>\<open>_combine_pars\<close>: the frame \<open>dfp0\<close>, together with the container
  as the assignments to \<^verbatim>\<open>parameters.varied\<close> leave it.
\<close>

definition combine_pars_dfp0 :: "pydict \<Rightarrow> (exn + table) \<times> pydict" where
  "combine_pars_dfp0 self =
     (case getattr self ''parameters'' of
        Inl e \<Rightarrow> (Inl e, self)
      | Inr (VDataDict ps) \<Rightarrow>
          (case getattr ps ''varied'' of
             Inl e \<Rightarrow> (Inl e, self)
           | Inr (VTable varied) \<Rightarrow>
               (case getattr ps ''fixed'' of
                  Inl e \<Rightarrow> (Inl e, self)
                | Inr fixed \<Rightarrow>
                    (case items fixed of
                       Inl e \<Rightarrow> (Inl e, self)
                     | Inr kvs \<Rightarrow>
                         (let (err, dfp0) = broadcast_fixed varied kvs;
                              self' = dict_set self ''parameters''
                                        (VDataDict (dict_set ps ''varied'' (VTable dfp0)))
                          in (case err of Some e \<Rightarrow> (Inl e, self')
                                        | None \<Rightarrow> (Inr dfp0, self')))))
           | Inr _ \<Rightarrow> (Inl (Unmodelled ''column assignment on a value that is no frame''), self))
      | Inr (VDict d) \<Rightarrow> (one_row_frame d, self)
      | Inr (VTable df) \<Rightarrow> (Inr df, self)
      | Inr (VScalar _) \<Rightarrow>
          (Inl (AgentpyError ''Parameters must be of type dict, DataDict, or pandas.DataFrame''),
           self))"

text \<open>\<^verbatim>\<open>[dfp0] * self.log['iterations']\<close>: the list of copies, empty for a count below
  one; a count that is not an integer cannot multiply a list.\<close>

definition times_iterations :: "table \<Rightarrow> pydict \<Rightarrow> exn + table list" where
  "times_iterations dfp0 self =
     (case getattr self ''log'' of
        Inl e \<Rightarrow> Inl e
      | Inr lg \<Rightarrow>
          (case subscript lg ''iterations'' of
             Inl e \<Rightarrow> Inl e
           | Inr (VScalar (PInt n)) \<Rightarrow> Inr (replicate (nat n) dfp0)
           | Inr _ \<Rightarrow> Inl (TypeError ''can't multiply sequence by non-int'')))"

definition combine_pars :: "pydict \<Rightarrow> (exn + table) \<times> pydict" where
  "combine_pars self =
     (case combine_pars_dfp0 self of
        (Inl e, self') \<Rightarrow> (Inl e, self')
      | (Inr dfp0, self') \<Rightarrow>
          (case times_iterations dfp0 self' of
             Inl e \<Rightarrow> (Inl e, self')
           | Inr copies \<Rightarrow>
               (case pd_concat copies of
                  Inl e \<Rightarrow> (Inl e, self')
                | Inr dfp \<Rightarrow> (Inr (set_index_name (reset_index_drop dfp) ''run_id''), self'))))"


section \<open>The variable combiner\<close>

text \<open>
  Arguments documented as \<^verbatim>\<open>str or list of str\<close>.

  Modelled from the spec: \<^verbatim>\<open>make_list\<close> (module \<^verbatim>\<open>tools\<close>) is not part of the sources at
  hand; it turns a single string into the list holding it and leaves a list as it is.
\<close>

datatype keys = Str string | Lst "string list"

fun make_list :: "keys \<Rightarrow> string list" where
  "make_list (Str s) = [s]"
| "make_list (Lst ks) = ks"

text \<open>Python's truth value of such an argument.\<close>

fun truthy :: "keys \<Rightarrow> bool" where
  "truthy (Str s) = (s \<noteq> [])"
| "truthy (Lst ks) = (ks \<noteq> [])"

text \<open>\<^verbatim>\<open>s in t\<close> on strings: \<open>s\<close> occurs in \<open>t\<close> as a substring.\<close>

fun str_in :: "string \<Rightarrow> string \<Rightarrow> bool" where
  "str_in s [] = (s = [])"
| "str_in s (c # cs) = (take (length s) (c # cs) = s \<or> str_in s cs)"

text \<open>\<^verbatim>\<open>k in obj_types\<close>: membership in a list, a substring test on a string.\<close>

fun key_in :: "string \<Rightarrow> keys \<Rightarrow> bool" where
  "key_in k (Str s) = str_in k s"
| "key_in k (Lst ks) = (k \<in> set ks)"

text \<open>\<^verbatim>\<open>any(x in v.columns for x in ks)\<close>.  No attribute is read when \<open>ks\<close> is empty.\<close>

fun any_column :: "string list \<Rightarrow> pyobj \<Rightarrow> exn + bool" where
  "any_column ks (VTable df) = Inr (list_ex (\<lambda>x. x \<in> set (columns df)) ks)"
| "any_column ks v =
     (if ks = [] then Inr False else Inl (Unmodelled ''columns of a value that is no frame''))"

text \<open>The same test on an entry that is a frame.\<close>

definition has_any :: "string list \<Rightarrow> string \<times> table \<Rightarrow> bool" where
  "has_any ks e = list_ex (\<lambda>x. x \<in> set (columns (snd e))) ks"

text \<open>\<^verbatim>\<open>{k: v for k, v in df_dict.items() if any(...)}\<close>.\<close>

fun select_var_keys :: "string list \<Rightarrow> pydict \<Rightarrow> exn + pydict" where
  "select_var_keys ks [] = Inr []"
| "select_var_keys ks ((k, v) # d) =
     (case any_column ks v of
        Inl e \<Rightarrow> Inl e
      | Inr b \<Rightarrow>
          (case select_var_keys ks d of
             Inl e \<Rightarrow> Inl e
           | Inr d' \<Rightarrow> Inr (if b then (k, v) # d' else d')))"

text \<open>The frames of a dictionary, when every value is one.\<close>

fun frames :: "pydict \<Rightarrow> (string \<times> table) list option" where
  "frames [] = Some []"
| "frames ((k, v) # d) =
     (case v of
        VTable df \<Rightarrow> (case frames d of None \<Rightarrow> None | Some fs \<Rightarrow> Some ((k, df) # fs))
      | _ \<Rightarrow> None)"

text \<open>
  \<^verbatim>\<open>pd.concat(df_dict)\<close> on a dictionary of frames: as for a list, and each row's index
  tuple gains the dictionary key as a new outermost, unnamed level.  Here frames whose
  indexes differ in their number of levels are an error of pandas.
\<close>

definition with_key :: "string \<Rightarrow> (pyval list \<times> pyval list) list \<Rightarrow> (pyval list \<times> pyval list) list"
  where "with_key k rs = map (\<lambda>(ix, d). (PStr k # ix, d)) rs"

definition pd_concat_dict :: "(string \<times> table) list \<Rightarrow> exn + table" where
  "pd_concat_dict kdfs =
     (let dfs = map snd kdfs in
      if kdfs = [] then Inl (ValueError ''No objects to concatenate'')
      else if \<not> list_all (\<lambda>df. length (index_names df) = length (index_names (hd dfs))) dfs
      then Inl (AssertionError
                  ''Cannot concat indices that do not have the same number of levels'')
      else if list_all (\<lambda>df. columns df = columns (hd dfs)) dfs
      then Inr \<lparr>index_names = None # unanimous_names (map index_names dfs),
                  columns = columns (hd dfs),
                  rows = concat (map (\<lambda>(k, df). with_key k (rows df)) kdfs)\<rparr>
      else if \<not> list_all (\<lambda>df. distinct (columns df)) dfs
      then Inl (InvalidIndexError ''Reindexing only valid with uniquely valued Index objects'')
      else let cols = uniq (concat (map columns dfs))
           in Inr \<lparr>index_names = None # unanimous_names (map index_names dfs),
                   columns = cols,
                   rows = concat (map (\<lambda>(k, df). with_key k (realign cols df)) kdfs)\<rparr>)"

text \<open>\<^verbatim>\<open>df.index = df.index.set_names(name, level=0)\<close>.\<close>

definition set_names_level0 :: "table \<Rightarrow> string \<Rightarrow> table" where
  "set_names_level0 df name = df\<lparr>index_names := Some name # tl (index_names df)\<rparr>"

text \<open>\<^verbatim>\<open>df.index.get_level_values(0)\<close>: the label of each row at the outermost index
  level.\<close>

definition outer_level_values :: "table \<Rightarrow> pyval option list" where
  "outer_level_values df = map (\<lambda>r. case fst r of [] \<Rightarrow> None | l # ls \<Rightarrow> Some l) (rows df)"

text \<open>
  \<^verbatim>\<open>df[ks]\<close> for a list of labels: the columns with these labels, in the order of \<open>ks\<close>;
  labels that are no column are an error that names them.
\<close>

definition pick :: "string list \<Rightarrow> string list \<Rightarrow> 'a list \<Rightarrow> 'a list" where
  "pick ks cols xs = concat (map (\<lambda>k. map snd (filter (\<lambda>(c, x). c = k) (zip cols xs))) ks)"

definition project :: "table \<Rightarrow> string list \<Rightarrow> exn + table" where
  "project df ks =
     (let missing = filter (\<lambda>k. k \<notin> set (columns df)) ks in
      if missing \<noteq> [] then Inl (LabelsNotFound missing)
      else Inr (df\<lparr>columns := pick ks (columns df) (columns df),
                   rows := map (\<lambda>(ix, d). (ix, pick ks (columns df) d)) (rows df)\<rparr>))"

text \<open>
  The selection of object types in \<^verbatim>\<open>_combine_vars\<close>: the entries left by the two
  filters.  Without a filter the section itself goes to \<^verbatim>\<open>pd.concat\<close>, which takes
  mappings only.
\<close>

definition select_entries :: "pyobj \<Rightarrow> keys option \<Rightarrow> string list option \<Rightarrow> exn + pydict" where
  "select_entries df_dict obj_types var_keys =
     (if var_keys = None \<and> obj_types = None
      then (case df_dict of
              VScalar x \<Rightarrow> Inl (TypeError ''first argument must be an iterable of pandas objects'')
            | _ \<Rightarrow> items df_dict)
      else (case items df_dict of
              Inl e \<Rightarrow> Inl e
            | Inr d0 \<Rightarrow>
                (case (case var_keys of
                         None \<Rightarrow> Inr d0
                       | Some ks \<Rightarrow> select_var_keys (make_list (Lst ks)) d0) of
                   Inl e \<Rightarrow> Inl e
                 | Inr d1 \<Rightarrow>
                     Inr (case obj_types of
                            None \<Rightarrow> d1
                          | Some ts \<Rightarrow> filter (\<lambda>(k, v). key_in k ts) d1))))"

text \<open>The creation of the data frame in \<^verbatim>\<open>_combine_vars\<close>.\<close>

definition create_dataframe :: "pydict \<Rightarrow> string list option \<Rightarrow> exn + table" where
  "create_dataframe d var_keys =
     (case frames d of
        None \<Rightarrow> Inl (TypeError ''cannot concatenate object that is no frame'')
      | Some kdfs \<Rightarrow>
          (case pd_concat_dict kdfs of
             Inl e \<Rightarrow> Inl e
           | Inr df0 \<Rightarrow>
               (let df = set_names_level0 df0 ''obj_type'' in
                case var_keys of
                  None \<Rightarrow> Inr df
                | Some ks \<Rightarrow> if ks \<noteq> [] then project df ks else Inr df)))"

text \<open>
  \<^verbatim>\<open>_combine_vars\<close>.  The result is a value: the single entry of a one-entry \<^verbatim>\<open>DataDict\<close> is
  returned as it is, whatever it is.
\<close>

fun single_entry :: "pyobj \<Rightarrow> pyobj option" where
  "single_entry (VDataDict [(k, v)]) = Some v"
| "single_entry _ = None"

definition combine_vars :: "pydict \<Rightarrow> keys option \<Rightarrow> string list option \<Rightarrow> exn + pyobj" where
  "combine_vars self obj_types var_keys =
     (case getitem self ''variables'' of
        Inl e \<Rightarrow> Inl e
      | Inr df_dict \<Rightarrow>
          (case df_dict of
             VTable df \<Rightarrow> Inr df_dict
           | _ \<Rightarrow>
               (case single_entry df_dict of
                  Some v \<Rightarrow> Inr v
                | None \<Rightarrow>
                    (case select_entries df_dict obj_types var_keys of
                       Inl e \<Rightarrow> Inl e
                     | Inr d \<Rightarrow> map_sum id VTable (create_dataframe d var_keys)))))"

section \<open>The arrangement engine\<close>

subsection \<open>Further pandas operations\<close>

text \<open>
  \<^verbatim>\<open>df.reset_index()\<close>: the index levels become the first columns and the index becomes
  the unnamed range.  An unnamed level is labelled \<^verbatim>\<open>index\<close> (\<^verbatim>\<open>level_0\<close> when that label
  is taken) when it is the only level, and \<^verbatim>\<open>level_i\<close> otherwise.  A label that is
  already a column cannot be inserted.
\<close>

fun digit_char :: "nat \<Rightarrow> char" where
  "digit_char n = char_of (48 + n)"

function str_nat :: "nat \<Rightarrow> string" where
  "str_nat n = (if n < 10 then [digit_char n] else str_nat (n div 10) @ [digit_char (n mod 10)])"
  by pat_completeness auto
termination
  by (relation "measure id") auto

declare str_nat.simps [simp del]

definition level_labels :: "table \<Rightarrow> string list" where
  "level_labels df =
     (case index_names df of
        [None] \<Rightarrow> [if ''index'' \<in> set (columns df) then ''level_0'' else ''index'']
      | ns \<Rightarrow> map2 (\<lambda>i n. case n of None \<Rightarrow> ''level_'' @ str_nat i | Some l \<Rightarrow> l)
                   [0..<length ns] ns)"

fun insert_clash :: "string list \<Rightarrow> string list \<Rightarrow> string option" where
  "insert_clash [] cols = None"
| "insert_clash (l # ls) cols =
     (case insert_clash ls cols of
        Some c \<Rightarrow> Some c
      | None \<Rightarrow> if l \<in> set cols \<or> l \<in> set ls then Some l else None)"

definition reset_index :: "table \<Rightarrow> exn + table" where
  "reset_index df =
     (let ls = level_labels df in
      case insert_clash ls (columns df) of
        Some l \<Rightarrow> Inl (ValueError (''cannot insert '' @ l @ '', already exists''))
      | None \<Rightarrow>
          Inr \<lparr>index_names = [None],
               columns = ls @ columns df,
               rows = map2 (\<lambda>i r. ([PInt (int i)], fst r @ snd r))
                        [0..<length (rows df)] (rows df)\<rparr>)"

text \<open>
  \<^verbatim>\<open>df.set_index(ks)\<close> for a list of labels: the columns \<open>ks\<close> become the index levels and
  are dropped from the columns.  The labels are level names of another frame here, so
  one can be \<^verbatim>\<open>None\<close>, which labels no column.
\<close>

definition label_repr :: "string option \<Rightarrow> string" where
  "label_repr n = (case n of None \<Rightarrow> ''None'' | Some l \<Rightarrow> l)"

definition set_index :: "table \<Rightarrow> string option list \<Rightarrow> exn + table" where
  "set_index df ks =
     (let missing = filter (\<lambda>k. case k of None \<Rightarrow> True | Some l \<Rightarrow> l \<notin> set (columns df)) ks;
          ls = map label_repr ks in
      if ks = [] then Inl (ValueError ''Must pass non-zero number of levels/codes'')
      else if missing \<noteq> [] then Inl (LabelsNotFound (map label_repr missing))
      else Inr \<lparr>index_names = ks,
                columns = filter (\<lambda>c. c \<notin> set ls) (columns df),
                rows = map (\<lambda>(ix, d).
                          (map (\<lambda>l. case cell (columns df) d l of None \<Rightarrow> PNaN | Some x \<Rightarrow> x) ls,
                           map snd (filter (\<lambda>(c, x). c \<notin> set ls) (zip (columns df) d))))
                        (rows df)\<rparr>)"

text \<open>
  \<^verbatim>\<open>dfp.reindex(idx, level=name)\<close> for a frame \<open>dfp\<close> with a one-level index and a
  multi-level target index: every row of the target receives the row of \<open>dfp\<close> whose index
  label is the target row's label at level \<open>name\<close>, or holes when there is none.
\<close>

definition reindex_level :: "table \<Rightarrow> table \<Rightarrow> string \<Rightarrow> exn + table" where
  "reindex_level dfp target name =
     (if Some name \<notin> set (index_names target)
      then Inl (KeyError (''Level '' @ name @ '' not found''))
      else Inr \<lparr>index_names = index_names target,
                columns = columns dfp,
                rows = map (\<lambda>(ix, d).
                          (ix, case map_of (zip (index_names target) ix) (Some name) of
                                 None \<Rightarrow> replicate (length (columns dfp)) PNaN
                               | Some l \<Rightarrow>
                                   (case map_of (rows dfp) [l] of
                                      None \<Rightarrow> replicate (length (columns dfp)) PNaN
                                    | Some d' \<Rightarrow> d')))
                        (rows target)\<rparr>)"

text \<open>
  \<^verbatim>\<open>pd.concat([a, b], axis=1)\<close>: for two frames with the same index labels in the same
  order, the columns of \<open>b\<close> are put to the right of those of \<open>a\<close>.  The alignment of
  indexes that differ is outside the model.
\<close>

definition pd_concat_axis1 :: "table \<Rightarrow> table \<Rightarrow> exn + table" where
  "pd_concat_axis1 a b =
     (if map fst (rows a) = map fst (rows b)
         \<and> length (index_names a) = length (index_names b)
      then Inr \<lparr>index_names = unanimous_names [index_names a, index_names b],
                columns = columns a @ columns b,
                rows = map2 (\<lambda>r r'. (fst r, snd r @ snd r')) (rows a) (rows b)\<rparr>
      else Inl (Unmodelled ''alignment of indexes that differ''))"

text \<open>
  \<^verbatim>\<open>df.query("scenario in @scenarios")\<close>: the rows whose \<^verbatim>\<open>scenario\<close>, a column or else an
  index level, is one of the given strings.  Without such a column or level the name is
  undefined.
\<close>

definition is_scenario :: "string list \<Rightarrow> pyval option \<Rightarrow> bool" where
  "is_scenario scs x = (case x of Some (PStr s) \<Rightarrow> s \<in> set scs | _ \<Rightarrow> False)"

definition query_scenario :: "table \<Rightarrow> string list \<Rightarrow> exn + table" where
  "query_scenario df scs =
     (if ''scenario'' \<in> set (columns df)
      then Inr (df\<lparr>rows := filter (\<lambda>(ix, d). is_scenario scs (cell (columns df) d ''scenario''))
                               (rows df)\<rparr>)
      else if Some ''scenario'' \<in> set (index_names df)
      then Inr (df\<lparr>rows := filter (\<lambda>(ix, d). is_scenario scs
                                          (map_of (zip (index_names df) ix) (Some ''scenario'')))
                               (rows df)\<rparr>)
      else Inl (UndefinedVariableError (''name '' @ quoted ''scenario'' @ '' is not defined'')))"

subsection \<open>\<^verbatim>\<open>DataDict.arrange\<close>\<close>

definition supported_keys :: "string list" where
  "supported_keys = [''variables'', ''measures'', ''parameters'']"

definition no_key_message :: "string \<Rightarrow> string" where
  "no_key_message key = ''DataDict has no key '' @ quoted key"

definition not_supported_message :: "string \<Rightarrow> string" where
  "not_supported_message key =
     ''DataDict.arrange doesn't support '' @ quoted key
       @ ''Supported keys are: '' @ repr_list supported_keys"

text \<open>Reading an attribute of \<^verbatim>\<open>None\<close>.\<close>

definition none_has_no :: "string \<Rightarrow> exn" where
  "none_has_no attr =
     AttributeError (quoted ''NoneType'' @ '' object has no attribute '' @ quoted attr)"

text \<open>The loop over the given \<^verbatim>\<open>data_keys\<close>: the first key that is rejected raises.\<close>

fun check_keys :: "pydict \<Rightarrow> string list \<Rightarrow> exn option" where
  "check_keys self [] = None"
| "check_keys self (key # ks) =
     (if key \<notin> set (map fst self) then Some (KeyError (no_key_message key))
      else if key \<notin> set supported_keys then Some (KeyError (not_supported_message key))
      else check_keys self ks)"

definition prepare_keys :: "pydict \<Rightarrow> keys option \<Rightarrow> exn + string list" where
  "prepare_keys self data_keys =
     (case data_keys of
        None \<Rightarrow> Inr (filter (\<lambda>k. k \<in> set supported_keys) (map fst self))
      | Some dk \<Rightarrow>
          (case check_keys self (make_list dk) of
             Some e \<Rightarrow> Inl e
           | None \<Rightarrow> Inr (make_list dk)))"

text \<open>
  The working frame \<open>dfv\<close> is \<open>None\<close> until a section has been processed.  A section that
  is requested and is no frame is outside the model.
\<close>

definition process_variables ::
  "pydict \<Rightarrow> string list \<Rightarrow> keys option \<Rightarrow> string list option \<Rightarrow> exn + table option" where
  "process_variables self data_keys obj_types var_keys =
     (if ''variables'' \<in> set data_keys
      then (case combine_vars self obj_types var_keys of
              Inl e \<Rightarrow> Inl e
            | Inr (VTable df) \<Rightarrow> Inr (Some df)
            | Inr _ \<Rightarrow> Inl (Unmodelled ''variables that are no frame''))
      else Inr None)"

definition stack_measures :: "table \<Rightarrow> table \<Rightarrow> exn + table" where
  "stack_measures dfm dfv =
     (let index_keys = index_names dfv in
      case reset_index dfm of
        Inl e \<Rightarrow> Inl e
      | Inr dfm' \<Rightarrow>
          (case reset_index dfv of
             Inl e \<Rightarrow> Inl e
           | Inr dfv' \<Rightarrow>
               (case pd_concat [dfm', dfv'] of
                  Inl e \<Rightarrow> Inl e
                | Inr df \<Rightarrow> set_index df index_keys)))"

definition process_measures ::
  "pydict \<Rightarrow> string list \<Rightarrow> string list option \<Rightarrow> table option \<Rightarrow> exn + table option" where
  "process_measures self data_keys measure_keys dfv =
     (if ''measures'' \<in> set data_keys
      then (case getattr self ''measures'' of
              Inl e \<Rightarrow> Inl e
            | Inr (VTable dfm0) \<Rightarrow>
                (case (case measure_keys of
                         None \<Rightarrow> Inr dfm0
                       | Some ks \<Rightarrow> if ks \<noteq> [] then project dfm0 ks else Inr dfm0) of
                   Inl e \<Rightarrow> Inl e
                 | Inr dfm \<Rightarrow>
                     (case dfv of
                        None \<Rightarrow> Inr (Some dfm)
                      | Some v \<Rightarrow> map_sum id Some (stack_measures dfm v)))
            | Inr _ \<Rightarrow> Inl (Unmodelled ''measures that are no frame''))
      else Inr dfv)"

text \<open>
  The parameters step reads \<^verbatim>\<open>dfv.index\<close> whether or not a section has been processed
  before it.  The container is returned as \<^verbatim>\<open>_combine_pars\<close> leaves it.
\<close>

definition join_parameters :: "table option \<Rightarrow> table \<Rightarrow> exn + table" where
  "join_parameters dfv dfp =
     (case dfv of
        None \<Rightarrow> Inl (none_has_no ''index'')
      | Some v \<Rightarrow>
          (case (if 2 \<le> length (index_names v) then reindex_level dfp v ''run_id''
                 else Inr dfp) of
             Inl e \<Rightarrow> Inl e
           | Inr dfp' \<Rightarrow> pd_concat_axis1 v dfp'))"

definition process_parameters ::
  "pydict \<Rightarrow> string list \<Rightarrow> string list option \<Rightarrow> table option
     \<Rightarrow> (exn + table option) \<times> pydict" where
  "process_parameters self data_keys param_keys dfv =
     (if ''parameters'' \<in> set data_keys
      then (case combine_pars self of
              (Inl e, self') \<Rightarrow> (Inl e, self')
            | (Inr dfp0, self') \<Rightarrow>
                (case (case param_keys of
                         None \<Rightarrow> Inr dfp0
                       | Some ks \<Rightarrow> if ks \<noteq> [] then project dfp0 ks else Inr dfp0) of
                   Inl e \<Rightarrow> (Inl e, self')
                 | Inr dfp \<Rightarrow> (map_sum id Some (join_parameters dfv dfp), self')))
      else (Inr dfv, self))"

definition select_scenarios :: "keys option \<Rightarrow> table option \<Rightarrow> exn + table option" where
  "select_scenarios scenarios dfv =
     (case scenarios of
        None \<Rightarrow> Inr dfv
      | Some scs \<Rightarrow>
          if truthy scs
          then (case dfv of
                  None \<Rightarrow> Inl (none_has_no ''query'')
                | Some v \<Rightarrow> map_sum id Some (query_scenario v (make_list scs)))
          else Inr dfv)"

definition finish_index :: "bool \<Rightarrow> table option \<Rightarrow> exn + table option" where
  "finish_index index dfv =
     (if \<not> index
      then (case dfv of
              None \<Rightarrow> Inl (none_has_no ''reset_index'')
            | Some v \<Rightarrow> map_sum id Some (reset_index v))
      else Inr dfv)"

text \<open>
  \<^verbatim>\<open>arrange\<close> returns the arranged frame (\<open>None\<close> when no section was processed and the
  index is kept) or the exception raised, and the container as the call leaves it.
\<close>

definition arrange ::
  "pydict \<Rightarrow> keys option \<Rightarrow> string list option \<Rightarrow> keys option \<Rightarrow> string list option
     \<Rightarrow> string list option \<Rightarrow> keys option \<Rightarrow> bool \<Rightarrow> (exn + table option) \<times> pydict" where
  "arrange self data_keys var_keys obj_types measure_keys param_keys scenarios index =
     (case prepare_keys self data_keys of
        Inl e \<Rightarrow> (Inl e, self)
      | Inr dks \<Rightarrow>
          (case process_variables self dks obj_types var_keys of
             Inl e \<Rightarrow> (Inl e, self)
           | Inr dfv1 \<Rightarrow>
               (case process_measures self dks measure_keys dfv1 of
                  Inl e \<Rightarrow> (Inl e, self)
                | Inr dfv2 \<Rightarrow>
                    (case process_parameters self dks param_keys dfv2 of
                       (Inl e, self') \<Rightarrow> (Inl e, self')
                     | (Inr dfv3, self') \<Rightarrow>
                         (case select_scenarios scenarios dfv3 of
                            Inl e \<Rightarrow> (Inl e, self')
                          | Inr dfv4 \<Rightarrow> (finish_index index dfv4, self'))))))"

section \<open>The persistence layer\<close>

subsection \<open>String operations\<close>

text \<open>\<^verbatim>\<open>s.split(c)\<close> for a one-character separator.\<close>

fun py_split :: "char \<Rightarrow> string \<Rightarrow> string list" where
  "py_split c [] = [[]]"
| "py_split c (x # xs) =
     (if x = c then [] # py_split c xs
      else (case py_split c xs of [] \<Rightarrow> [[x]] | w # ws \<Rightarrow> (x # w) # ws))"

text \<open>\<^verbatim>\<open>s.replace(old, new)\<close> for a non-empty \<open>old\<close>: every occurrence, from the left,
  without overlaps.\<close>

function py_replace :: "string \<Rightarrow> string \<Rightarrow> string \<Rightarrow> string" where
  "py_replace old new s =
     (if old = [] \<or> s = [] then s
      else if take (length old) s = old then new @ py_replace old new (drop (length old) s)
      else hd s # py_replace old new (tl s))"
  by pat_completeness auto
termination
  by (relation "measure (\<lambda>(old, new, s). length s)") auto

declare py_replace.simps [simp del]

text \<open>
  \<^verbatim>\<open>int(s)\<close> on an ASCII string: surrounding whitespace is dropped, a sign may come
  first, and at least one decimal digit must follow and nothing else.
\<close>

definition is_space :: "char \<Rightarrow> bool" where
  "is_space c \<longleftrightarrow> (of_char c :: nat) \<in> {9, 10, 11, 12, 13, 28, 29, 30, 31, 32}"

definition strip :: "string \<Rightarrow> string" where
  "strip s = rev (dropWhile is_space (rev (dropWhile is_space s)))"

definition is_digit :: "char \<Rightarrow> bool" where
  "is_digit c \<longleftrightarrow> 48 \<le> (of_char c :: nat) \<and> (of_char c :: nat) \<le> 57"

definition digits_value :: "string \<Rightarrow> nat" where
  "digits_value ds = foldl (\<lambda>a c. 10 * a + (of_char c - 48)) 0 ds"

definition invalid_literal :: "string \<Rightarrow> exn" where
  "invalid_literal s = ValueError (''invalid literal for int() with base 10: '' @ quoted s)"

definition py_int :: "string \<Rightarrow> exn + int" where
  "py_int s =
     (let t = strip s;
          (neg, ds) = (case t of
                         [] \<Rightarrow> (False, [])
                       | c # cs \<Rightarrow> if c = CHR ''-'' then (True, cs)
                                  else if c = CHR ''+'' then (False, cs)
                                  else (False, t))
      in if ds \<noteq> [] \<and> list_all is_digit ds
         then Inr (if neg then - int (digits_value ds) else int (digits_value ds))
         else Inl (invalid_literal s))"

text \<open>\<^verbatim>\<open>str(i)\<close>, as an f-string prints an integer.\<close>

definition py_str_int :: "int \<Rightarrow> string" where
  "py_str_int i = (if i < 0 then CHR ''-'' # str_nat (nat (- i)) else str_nat (nat i))"

subsection \<open>The file system\<close>

text \<open>
  What the module sees of the file system: the listing of each directory, by its path
  relative to the working directory \<^verbatim>\<open>.\<close>, and the files written, each as the object handed
  to its encoder.  Paths are relative, with \<^verbatim>\<open>/\<close> between their components.
\<close>

datatype content = Csv table | Json "pyobj"

record filesys =
  dirs :: "(string \<times> string list) list"
  written :: "(string \<times> content) list"

definition strip_slash :: "string \<Rightarrow> string" where
  "strip_slash p = rev (dropWhile (\<lambda>c. c = CHR ''/'') (rev p))"

definition listdir :: "filesys \<Rightarrow> string \<Rightarrow> exn + string list" where
  "listdir fs p =
     (case map_of (dirs fs) (strip_slash p) of
        None \<Rightarrow> Inl (FileNotFoundError p)
      | Some l \<Rightarrow> Inr l)"

definition child :: "string \<Rightarrow> string \<Rightarrow> string" where
  "child parent c = (if parent = ''.'' then c else parent @ ''/'' @ c)"

definition add_entry :: "(string \<times> string list) list \<Rightarrow> string \<Rightarrow> string
    \<Rightarrow> (string \<times> string list) list" where
  "add_entry ds parent c =
     (case map_of ds parent of
        None \<Rightarrow> dict_set ds parent [c]
      | Some l \<Rightarrow> if c \<in> set l then ds else dict_set ds parent (l @ [c]))"

text \<open>\<^verbatim>\<open>makedirs(p)\<close> creates the directory and the missing directories above it; it is an
  error when \<open>p\<close> exists.\<close>

fun mkdirs :: "string \<Rightarrow> string list \<Rightarrow> (string \<times> string list) list
    \<Rightarrow> (string \<times> string list) list" where
  "mkdirs parent [] ds = ds"
| "mkdirs parent (c # cs) ds =
     (let p = child parent c
      in mkdirs p cs (if p \<in> set (map fst ds) then ds else dict_set (add_entry ds parent c) p []))"

definition makedirs :: "filesys \<Rightarrow> string \<Rightarrow> exn + filesys" where
  "makedirs fs p =
     (if strip_slash p \<in> set (map fst (dirs fs)) \<or> strip_slash p \<in> set (map fst (written fs))
      then Inl (FileExistsError p)
      else Inr (fs\<lparr>dirs := mkdirs ''.'' (py_split (CHR ''/'') (strip_slash p)) (dirs fs)\<rparr>))"

text \<open>Writing the file \<open>name\<close> in the directory \<open>dir\<close>.\<close>

definition write_file :: "filesys \<Rightarrow> string \<Rightarrow> string \<Rightarrow> content \<Rightarrow> exn + filesys" where
  "write_file fs dir name f =
     (if dir \<notin> set (map fst (dirs fs)) then Inl (FileNotFoundError (dir @ ''/'' @ name))
      else Inr \<lparr>dirs = add_entry (dirs fs) dir name,
                written = dict_set (written fs) (dir @ ''/'' @ name) f\<rparr>)"

subsection \<open>\<^verbatim>\<open>_last_exp_id\<close>\<close>

fun all_ints :: "string list \<Rightarrow> exn + int list" where
  "all_ints [] = Inr []"
| "all_ints (s # ss) =
     (case py_int s of
        Inl e \<Rightarrow> Inl e
      | Inr i \<Rightarrow> (case all_ints ss of Inl e \<Rightarrow> Inl e | Inr js \<Rightarrow> Inr (i # js)))"

text \<open>\<^verbatim>\<open>max(ids)\<close> of a list that is not empty.\<close>

fun py_max :: "int list \<Rightarrow> int" where
  "py_max [] = 0"
| "py_max (i # js) = foldl max i js"

definition last_exp_id :: "string \<Rightarrow> string \<Rightarrow> filesys \<Rightarrow> exn + int" where
  "last_exp_id name path fs =
     (case listdir fs path of
        Inl e \<Rightarrow> Inl e
      | Inr output_dirs \<Rightarrow>
          (let exp_dirs = filter (\<lambda>s. str_in name s) output_dirs
           in if exp_dirs \<noteq> []
              then (case all_ints (map (\<lambda>s. last (py_split (CHR ''_'') s)) exp_dirs) of
                      Inl e \<Rightarrow> Inl e
                    | Inr ids \<Rightarrow> Inr (py_max ids))
              else Inr 0))"

subsection \<open>\<^verbatim>\<open>DataDict.save\<close>\<close>

text \<open>\<^verbatim>\<open>json.dump\<close> with \<^verbatim>\<open>NpEncoder\<close> encodes scalars and mappings of them; a data frame
  is not serializable.\<close>

fun serializable :: "pyobj \<Rightarrow> bool" where
  "serializable (VScalar x) = True"
| "serializable (VTable df) = False"
| "serializable (VDict d) = list_all (\<lambda>kv. serializable (snd kv)) d"
| "serializable (VDataDict d) = list_all (\<lambda>kv. serializable (snd kv)) d"

text \<open>\<^verbatim>\<open>with open(..., 'w') as fp: json.dump(o, fp, cls=NpEncoder)\<close>: the file is created
  before the encoder runs.\<close>

definition json_dump :: "filesys \<Rightarrow> string \<Rightarrow> string \<Rightarrow> pyobj \<Rightarrow> exn option \<times> filesys" where
  "json_dump fs dir name v =
     (case write_file fs dir name (Json v) of
        Inl e \<Rightarrow> (Some e, fs)
      | Inr fs' \<Rightarrow>
          if serializable v then (None, fs')
          else (Some (TypeError ''Object of type DataFrame is not JSON serializable''), fs'))"

definition to_csv :: "filesys \<Rightarrow> string \<Rightarrow> string \<Rightarrow> table \<Rightarrow> exn option \<times> filesys" where
  "to_csv fs dir name df =
     (case write_file fs dir name (Csv df) of
        Inl e \<Rightarrow> (Some e, fs)
      | Inr fs' \<Rightarrow> (None, fs'))"

text \<open>The inner loop of \<^verbatim>\<open>save\<close> over the entries of a nested \<^verbatim>\<open>DataDict\<close>.\<close>

fun save_inner :: "filesys \<Rightarrow> string \<Rightarrow> string \<Rightarrow> pydict \<Rightarrow> exn option \<times> filesys" where
  "save_inner fs path key [] = (None, fs)"
| "save_inner fs path key ((k, out) # d) =
     (case (case out of
              VTable df \<Rightarrow> to_csv fs path (key @ ''_'' @ k @ ''.csv'') df
            | VDict _ \<Rightarrow> json_dump fs path (key @ ''_'' @ k @ ''.json'') out
            | VDataDict _ \<Rightarrow> json_dump fs path (key @ ''_'' @ k @ ''.json'') out
            | VScalar _ \<Rightarrow> (None, fs)) of
        (Some e, fs') \<Rightarrow> (Some e, fs')
      | (None, fs') \<Rightarrow> save_inner fs' path key d)"

text \<open>The loop of \<^verbatim>\<open>save\<close> over the entries of the container.\<close>

fun save_entries :: "filesys \<Rightarrow> string \<Rightarrow> pydict \<Rightarrow> exn option \<times> filesys" where
  "save_entries fs path [] = (None, fs)"
| "save_entries fs path ((key, output) # d) =
     (case (case output of
              VTable df \<Rightarrow> to_csv fs path (key @ ''.csv'') df
            | VDataDict inner \<Rightarrow> save_inner fs path key inner
            | VDict _ \<Rightarrow> json_dump fs path (key @ ''.json'') output
            | VScalar _ \<Rightarrow> (None, fs)) of
        (Some e, fs') \<Rightarrow> (Some e, fs')
      | (None, fs') \<Rightarrow> save_entries fs' path d)"

text \<open>The experiment name: the argument, or \<^verbatim>\<open>self.log['name']\<close>, with spaces replaced.\<close>

definition resolve_exp_name :: "pydict \<Rightarrow> string option \<Rightarrow> exn + string" where
  "resolve_exp_name self exp_name =
     (case (case exp_name of
              Some n \<Rightarrow> Inr (VScalar (PStr n))
            | None \<Rightarrow>
                (case getattr self ''log'' of
                   Inl e \<Rightarrow> Inl e
                 | Inr lg \<Rightarrow> subscript lg ''name'')) of
        Inl e \<Rightarrow> Inl e
      | Inr (VScalar (PStr n)) \<Rightarrow> Inr (py_replace '' '' ''_'' n)
      | Inr _ \<Rightarrow> Inl (AttributeError ''replace''))"

text \<open>The experiment id: the argument, or one more than the highest id found.\<close>

definition resolve_exp_id :: "int option \<Rightarrow> string \<Rightarrow> string \<Rightarrow> filesys \<Rightarrow> exn + int" where
  "resolve_exp_id exp_id exp_name path fs =
     (case exp_id of
        Some i \<Rightarrow> Inr i
      | None \<Rightarrow> map_sum id (\<lambda>i. i + 1) (last_exp_id exp_name path fs))"

definition exp_dir :: "string \<Rightarrow> string \<Rightarrow> int \<Rightarrow> string" where
  "exp_dir path exp_name exp_id = path @ ''/'' @ exp_name @ ''_'' @ py_str_int exp_id"

text \<open>
  \<^verbatim>\<open>save\<close> returns the exception raised, if any, and the file system as the call leaves
  it.  What it prints is left out.
\<close>

definition save :: "pydict \<Rightarrow> string option \<Rightarrow> int option \<Rightarrow> string \<Rightarrow> filesys
    \<Rightarrow> exn option \<times> filesys" where
  "save self exp_name exp_id path fs =
     (case listdir fs ''.'' of
        Inl e \<Rightarrow> (Some e, fs)
      | Inr here \<Rightarrow>
          (case (if path \<notin> set here then makedirs fs path else Inr fs) of
             Inl e \<Rightarrow> (Some e, fs)
           | Inr fs1 \<Rightarrow>
               (case resolve_exp_name self exp_name of
                  Inl e \<Rightarrow> (Some e, fs1)
                | Inr name \<Rightarrow>
                    (case resolve_exp_id exp_id name path fs1 of
                       Inl e \<Rightarrow> (Some e, fs1)
                     | Inr i \<Rightarrow>
                         (case makedirs fs1 (exp_dir path name i) of
                            Inl e \<Rightarrow> (Some e, fs1)
                          | Inr fs2 \<Rightarrow> save_entries fs2 (exp_dir path name i) self)))))"

subsection \<open>\<^verbatim>\<open>load\<close>\<close>

definition i_cols :: "string list" where
  "i_cols = [''sample_id'', ''run_id'', ''scenario'', ''env_key'', ''agent_id'', ''obj_id'', ''t'']"

text \<open>
  The decoders are those of pandas and of the \<^verbatim>\<open>json\<close> module: \<open>read_csv\<close> and \<open>json_load\<close>
  give, for a path, the decoded object or the exception of reading or decoding the
  file there.  \<^verbatim>\<open>load_file\<close> returns the object, or \<^verbatim>\<open>None\<close> after an exception or for a
  file type it does not know.  What it prints is left out.
\<close>

definition load_file :: "(string \<Rightarrow> exn + table) \<Rightarrow> (string \<Rightarrow> exn + pyobj)
    \<Rightarrow> string \<Rightarrow> string \<Rightarrow> pyobj" where
  "load_file read_csv json_load path file =
     (let ext = last (py_split (CHR ''.'') file) in
      if ext = ''csv''
      then (case read_csv (path @ file) of
              Inl e \<Rightarrow> VScalar PNone
            | Inr obj \<Rightarrow>
                (let index = filter (\<lambda>i. i \<in> set (columns obj)) i_cols in
                 if index \<noteq> []
                 then (case set_index obj (map Some index) of
                         Inl e \<Rightarrow> VScalar PNone
                       | Inr obj' \<Rightarrow> VTable obj')
                 else VTable obj))
      else if ext = ''json''
      then (case json_load (path @ file) of
              Inl e \<Rightarrow> VScalar PNone
            | Inr obj \<Rightarrow> obj)
      else VScalar PNone)"

text \<open>\<^verbatim>\<open>file[:-(len(ext) + 1)]\<close>: the file name without its extension and the dot.\<close>

definition stem :: "string \<Rightarrow> string" where
  "stem file = take (length file - (length (last (py_split (CHR ''.'') file)) + 1)) file"

text \<open>\<^verbatim>\<open>self[section][key] = obj\<close>: item assignment on the value stored under
  \<open>section\<close>.\<close>

definition set_nested :: "pydict \<Rightarrow> string \<Rightarrow> string \<Rightarrow> pyobj \<Rightarrow> exn + pydict" where
  "set_nested self section key obj =
     (case getitem self section of
        Inl e \<Rightarrow> Inl e
      | Inr (VDataDict d) \<Rightarrow> Inr (dict_set self section (VDataDict (dict_set d key obj)))
      | Inr (VDict d) \<Rightarrow> Inr (dict_set self section (VDict (dict_set d key obj)))
      | Inr (VTable df) \<Rightarrow> Inl (Unmodelled ''column assignment of an object'')
      | Inr (VScalar x) \<Rightarrow> Inl (TypeError ''object does not support item assignment''))"

text \<open>One round of the loop of \<^verbatim>\<open>_load\<close> over the files of the directory.\<close>

definition load_step :: "(string \<Rightarrow> exn + table) \<Rightarrow> (string \<Rightarrow> exn + pyobj)
    \<Rightarrow> string \<Rightarrow> string \<Rightarrow> pydict \<Rightarrow> exn + pydict" where
  "load_step read_csv json_load path file self =
     (if str_in ''variables_'' file
      then (let self' = (if ''variables'' \<notin> set (map fst self)
                         then dict_set self ''variables'' (VDataDict []) else self);
                key = py_replace ''variables_'' '''' (stem file)
            in set_nested self' ''variables'' key (load_file read_csv json_load path file))
      else if str_in ''parameters_'' file
      then (let key = py_replace ''parameters_'' '''' (stem file);
                self' = (if ''parameters'' \<notin> set (map fst self)
                         then dict_set self ''parameters'' (VDataDict []) else self)
            in set_nested self' ''parameters'' key (load_file read_csv json_load path file))
      else Inr (dict_set self (stem file) (load_file read_csv json_load path file)))"

fun load_files :: "(string \<Rightarrow> exn + table) \<Rightarrow> (string \<Rightarrow> exn + pyobj)
    \<Rightarrow> string \<Rightarrow> string list \<Rightarrow> pydict \<Rightarrow> exn + pydict" where
  "load_files read_csv json_load path [] self = Inr self"
| "load_files read_csv json_load path (file # files) self =
     (case load_step read_csv json_load path file self of
        Inl e \<Rightarrow> Inl e
      | Inr self' \<Rightarrow> load_files read_csv json_load path files self')"

text \<open>The id of \<^verbatim>\<open>_load\<close> when none is given (\<^verbatim>\<open>None\<close> and \<open>0\<close> count as not given):
  the highest id found, which has to differ from \<open>0\<close>.\<close>

definition find_exp_id :: "string \<Rightarrow> string \<Rightarrow> filesys \<Rightarrow> exn + int" where
  "find_exp_id name path fs =
     (case last_exp_id name path fs of
        Inl e \<Rightarrow> Inl e
      | Inr i \<Rightarrow>
          if i = 0
          then Inl (AgentpyError (''No experiment found with name '' @ quoted name
                      @ '' in path '' @ quoted path))
          else Inr i)"

text \<open>\<^verbatim>\<open>DataDict._load\<close>.\<close>

definition load_from :: "pydict \<Rightarrow> (string \<Rightarrow> exn + table) \<Rightarrow> (string \<Rightarrow> exn + pyobj)
    \<Rightarrow> string option \<Rightarrow> int option \<Rightarrow> string \<Rightarrow> filesys \<Rightarrow> exn + pydict" where
  "load_from self read_csv json_load exp_name exp_id path fs =
     (case exp_name of
        None \<Rightarrow> Inl (none_has_no ''replace'')
      | Some n \<Rightarrow>
          (let name = py_replace '' '' ''_'' n in
           case (case exp_id of
                   None \<Rightarrow> find_exp_id name path fs
                 | Some i \<Rightarrow> if i = 0 then find_exp_id name path fs else Inr i) of
             Inl e \<Rightarrow> Inl e
           | Inr i \<Rightarrow>
               (let path' = exp_dir path name i @ ''/'' in
                case listdir fs path' of
                  Inl e \<Rightarrow> Inl e
                | Inr files \<Rightarrow> load_files read_csv json_load path' files self)))"

text \<open>\<^verbatim>\<open>load\<close> starts from an empty container.\<close>

definition load :: "(string \<Rightarrow> exn + table) \<Rightarrow> (string \<Rightarrow> exn + pyobj)
    \<Rightarrow> string option \<Rightarrow> int option \<Rightarrow> string \<Rightarrow> filesys \<Rightarrow> exn + pydict" where
  "load read_csv json_load exp_name exp_id path fs =
     load_from [] read_csv json_load exp_name exp_id path fs"

subsection \<open>Where a loaded file ends up\<close>

text \<open>
  The place of a file in the loaded container: the nested section it belongs to, if any,
  and its key there.
\<close>

definition slot :: "string \<Rightarrow> string option \<times> string" where
  "slot file =
     (if str_in ''variables_'' file
      then (Some ''variables'', py_replace ''variables_'' '''' (stem file))
      else if str_in ''parameters_'' file
      then (Some ''parameters'', py_replace ''parameters_'' '''' (stem file))
      else (None, stem file))"

text \<open>What the container holds at a place; \<open>None\<close> when the key is absent.\<close>

definition lookup_slot :: "pydict \<Rightarrow> string option \<times> string \<Rightarrow> pyobj option" where
  "lookup_slot self s =
     (case fst s of
        None \<Rightarrow> map_of self (snd s)
      | Some section \<Rightarrow>
          (case map_of self section of
             Some (VDataDict d) \<Rightarrow> map_of d (snd s)
           | _ \<Rightarrow> None))"

text \<open>No file of the directory is loaded under the top-level key of a nested section.\<close>

definition no_section_file :: "string list \<Rightarrow> bool" where
  "no_section_file files \<longleftrightarrow>
     list_all (\<lambda>f. fst (slot f) = None \<longrightarrow> snd (slot f) \<notin> {''variables'', ''parameters''}) files"

text \<open>The nested sections of a container under construction are \<^verbatim>\<open>DataDict\<close>s.\<close>

definition nested_sections :: "pydict \<Rightarrow> bool" where
  "nested_sections self \<longleftrightarrow>
     list_all (\<lambda>section. case map_of self section of
                            None \<Rightarrow> True
                          | Some (VDataDict d) \<Rightarrow> True
                          | Some _ \<Rightarrow> False) [''variables'', ''parameters'']"

section \<open>Example data\<close>

text \<open>A run of two iterations over three sampled parameter combinations.\<close>

definition ex_varied :: table where
  "ex_varied =
     \<lparr>index_names = [None], columns = [''b''],
      rows = [([PInt 0], [PInt 10]), ([PInt 1], [PInt 20]), ([PInt 2], [PInt 30])]\<rparr>"

definition ex_measures :: table where
  "ex_measures =
     \<lparr>index_names = [Some ''run_id''], columns = [''m''],
      rows = [([PInt 0], [PInt 7]), ([PInt 1], [PInt 8]), ([PInt 2], [PInt 9]),
              ([PInt 3], [PInt 7]), ([PInt 4], [PInt 8]), ([PInt 5], [PInt 9])]\<rparr>"

definition ex_log :: "pyobj" where
  "ex_log = VDict [(''name'', VScalar (PStr ''exp'')), (''iterations'', VScalar (PInt 2))]"

definition ex_parameters :: "pyobj" where
  "ex_parameters =
     VDataDict [(''fixed'', VDict [(''a'', VScalar (PInt 1))]), (''varied'', VTable ex_varied)]"

definition ex_experiment :: pydict where
  "ex_experiment =
     [(''log'', ex_log), (''parameters'', ex_parameters), (''measures'', VTable ex_measures)]"

text \<open>A single run with a flat parameters mapping.\<close>

definition ex_run :: pydict where
  "ex_run =
     [(''log'', VDict [(''name'', VScalar (PStr ''run'')), (''iterations'', VScalar (PInt 1))]),
      (''parameters'', VDict [(''a'', VScalar (PInt 1)), (''b'', VScalar (PInt 2))])]"

text \<open>Recorded variables of two object types; no agent of type \<^verbatim>\<open>A\<close> has recorded
  anything.\<close>

definition ex_vars_a :: table where
  "ex_vars_a = \<lparr>index_names = [Some ''obj_id'', Some ''t''], columns = [''x''], rows = []\<rparr>"

definition ex_vars_b :: table where
  "ex_vars_b =
     \<lparr>index_names = [Some ''obj_id'', Some ''t''], columns = [''x'', ''y''],
      rows = [([PInt 1, PInt 0], [PInt 5, PInt 6]), ([PInt 1, PInt 1], [PInt 7, PInt 8])]\<rparr>"

definition ex_two_types :: pydict where
  "ex_two_types = [(''variables'', VDataDict [(''A'', VTable ex_vars_a), (''B'', VTable ex_vars_b)])]"

text \<open>Recorded variables of three object types with different columns.\<close>

definition ex_vars_c :: table where
  "ex_vars_c =
     \<lparr>index_names = [Some ''obj_id'', Some ''t''], columns = [''x''],
      rows = [([PInt 2, PInt 0], [PInt 1])]\<rparr>"

definition ex_vars_d :: table where
  "ex_vars_d =
     \<lparr>index_names = [Some ''obj_id'', Some ''t''], columns = [''z''],
      rows = [([PInt 3, PInt 0], [PInt 4])]\<rparr>"

definition ex_three_types :: pydict where
  "ex_three_types =
     [(''variables'',
       VDataDict [(''B'', VTable ex_vars_b), (''C'', VTable ex_vars_c), (''D'', VTable ex_vars_d)])]"

section \<open>Properties\<close>

subsection \<open>Dictionaries and frames\<close>

lemma map_of_dict_set:
  "map_of (dict_set d k v) k' = (if k' = k then Some v else map_of d k')"
  by (induction d) auto

lemma setitem_rows_length: "length (rows (setitem df k v)) = length (rows df)"
  by (simp add: setitem_def)

lemma map_of_zip_overwrite:
  "length d = length cols \<Longrightarrow> k \<in> set cols \<Longrightarrow>
   map_of (zip cols (map2 (\<lambda>c x. if c = k then v else x) cols d)) k = Some v"
proof (induction cols arbitrary: d)
  case Nil
  then show ?case by simp
next
  case (Cons c cols)
  then obtain x d' where "d = x # d'"
    by (cases d) auto
  with Cons show ?case by auto
qed

lemma map_of_zip_snoc:
  "length d = length cols \<Longrightarrow> k \<notin> set cols \<Longrightarrow>
   map_of (zip (cols @ [k]) (d @ [v])) k = Some v"
  by (induction cols arbitrary: d) (auto simp: length_Suc_conv)

lemma map_snd_map2:
  "length xs = length ys \<Longrightarrow> map snd (map2 (\<lambda>i r. (f i, snd r)) xs ys) = map snd ys"
  by (induction xs ys rule: list_induct2) auto

lemma map_fst_map2:
  "length xs = length ys \<Longrightarrow> map fst (map2 (\<lambda>i r. (f i, g r)) xs ys) = map f xs"
  by (induction xs ys rule: list_induct2) auto

lemma setitem_cell:
  assumes "wf_table df" and "r \<in> set (rows (setitem df k v))"
  shows "cell (columns (setitem df k v)) (snd r) k = Some v"
proof -
  from assms(2) obtain r0 where r0: "r0 \<in> set (rows df)"
    and r: "snd r = (if k \<in> set (columns df)
                     then map2 (\<lambda>c x. if c = k then v else x) (columns df) (snd r0)
                     else snd r0 @ [v])"
    by (auto simp: setitem_def split: if_splits)
  from assms(1) r0 have len: "length (snd r0) = length (columns df)"
    by (simp add: wf_table_def list_all_iff)
  show ?thesis
  proof (cases "k \<in> set (columns df)")
    case True
    with len r show ?thesis
      by (simp add: cell_def setitem_def map_of_zip_overwrite)
  next
    case False
    with len r show ?thesis
      using map_of_zip_snoc [of "snd r0" "columns df" k v]
      by (simp add: cell_def setitem_def del: zip_append)
  qed
qed

subsection \<open>The parameter combiner\<close>

text \<open>The frame that \<^verbatim>\<open>_combine_pars\<close> returns for a nested parameters section with
  \<^verbatim>\<open>fixed = {'a': 1}\<close>, a varied frame of three rows and two iterations.\<close>

lemma combine_pars_two_copies:
  assumes "map_of self ''parameters'' = Some (VDataDict ps)"
    and "map_of ps ''varied'' = Some (VTable varied)"
    and "map_of ps ''fixed'' = Some (VDict [(''a'', VScalar (PInt 1))])"
    and "map_of self ''log'' = Some lg"
    and "subscript lg ''iterations'' = Inr (VScalar (PInt 2))"
    and "length (rows varied) = 3"
  shows "fst (combine_pars self) =
           Inr \<lparr>index_names = [Some ''run_id''],
                columns = columns (setitem varied ''a'' (PInt 1)),
                rows = map2 (\<lambda>i r. ([PInt (int i)], snd r)) [0..<6]
                         (rows (setitem varied ''a'' (PInt 1))
                            @ rows (setitem varied ''a'' (PInt 1)))\<rparr>"
  using assms
  by (simp add: combine_pars_def combine_pars_dfp0_def getattr_def times_iterations_def
        map_of_dict_set pd_concat_def reset_index_drop_def set_index_name_def
        setitem_rows_length Let_def numeral_2_eq_2 split: prod.splits)

text \<open>
  Claim C1.  For a parameters section that is a nested container with \<^verbatim>\<open>fixed = {'a': 1}\<close>
  and a varied frame of three rows, and two iterations in the log, the parameter
  combiner returns a frame of exactly six rows, with the column \<^verbatim>\<open>a\<close> equal to 1 in
  every row, under a fresh index named \<^verbatim>\<open>run_id\<close> that runs from 0 to 5, and with the rows
  of the first copy followed by the rows of the second copy.
\<close>

theorem combine_pars_replication:
  assumes "map_of self ''parameters'' = Some (VDataDict ps)"
    and "map_of ps ''varied'' = Some (VTable varied)"
    and "map_of ps ''fixed'' = Some (VDict [(''a'', VScalar (PInt 1))])"
    and "map_of self ''log'' = Some lg"
    and "subscript lg ''iterations'' = Inr (VScalar (PInt 2))"
    and "wf_table varied"
    and "length (rows varied) = 3"
  shows "\<exists>dfp. fst (combine_pars self) = Inr dfp
           \<and> length (rows dfp) = 6
           \<and> (\<forall>r \<in> set (rows dfp). cell (columns dfp) (snd r) ''a'' = Some (PInt 1))
           \<and> index_names dfp = [Some ''run_id'']
           \<and> map fst (rows dfp) = [[PInt 0], [PInt 1], [PInt 2], [PInt 3], [PInt 4], [PInt 5]]
           \<and> map snd (rows dfp) = map snd (rows (setitem varied ''a'' (PInt 1)))
                                     @ map snd (rows (setitem varied ''a'' (PInt 1)))"
proof -
  let ?v = "setitem varied ''a'' (PInt 1)"
  let ?dfp = "\<lparr>index_names = [Some ''run_id''], columns = columns ?v,
               rows = map2 (\<lambda>i r. ([PInt (int i)], snd r)) [0..<6] (rows ?v @ rows ?v)\<rparr>"
  have len: "length (rows ?v @ rows ?v) = 6"
    using assms(7) by (simp add: setitem_rows_length)
  have upt: "[0..<6] = [0, 1, 2, 3, 4, 5::nat]"
    by (simp add: upt_rec)
  have res: "fst (combine_pars self) = Inr ?dfp"
    by (rule combine_pars_two_copies [OF assms(1-5) assms(7)])
  have n: "length (rows ?dfp) = 6"
    using len by simp
  have data: "map snd (rows ?dfp) = map snd (rows ?v) @ map snd (rows ?v)"
  proof -
    have "map snd (map2 (\<lambda>i r. ([PInt (int i)], snd r)) [0..<6] (rows ?v @ rows ?v))
            = map snd (rows ?v @ rows ?v)"
      using len by (intro map_snd_map2) simp
    then show ?thesis by simp
  qed
  have idx: "map fst (rows ?dfp) = [[PInt 0], [PInt 1], [PInt 2], [PInt 3], [PInt 4], [PInt 5]]"
  proof -
    have "map fst (map2 (\<lambda>i r. ([PInt (int i)], snd r)) [0..<6] (rows ?v @ rows ?v))
            = map (\<lambda>i. [PInt (int i)]) [0..<6]"
      using len by (intro map_fst_map2) simp
    then show ?thesis by (simp add: upt)
  qed
  have a: "\<forall>r \<in> set (rows ?dfp). cell (columns ?dfp) (snd r) ''a'' = Some (PInt 1)"
  proof
    fix r assume "r \<in> set (rows ?dfp)"
    then have "snd r \<in> set (map snd (rows ?dfp))"
      unfolding set_map by (rule imageI)
    then have "snd r \<in> snd ` set (rows ?v)"
      unfolding data by auto
    then obtain r0 where "r0 \<in> set (rows ?v)" and "snd r = snd r0"
      by auto
    then show "cell (columns ?dfp) (snd r) ''a'' = Some (PInt 1)"
      using setitem_cell [OF assms(6), of r0 "''a''" "PInt 1"] by simp
  qed
  show ?thesis
    using res n a idx data by (intro exI [of _ ?dfp]) simp
qed



theorem combine_pars_replication_witness:
  "\<exists>dfp. fst (combine_pars ex_experiment) = Inr dfp
     \<and> length (rows dfp) = 6
     \<and> (\<forall>r \<in> set (rows dfp). cell (columns dfp) (snd r) ''a'' = Some (PInt 1))
     \<and> index_names dfp = [Some ''run_id'']
     \<and> map fst (rows dfp) = [[PInt 0], [PInt 1], [PInt 2], [PInt 3], [PInt 4], [PInt 5]]
     \<and> map snd (rows dfp) = map snd (rows (setitem ex_varied ''a'' (PInt 1)))
                               @ map snd (rows (setitem ex_varied ''a'' (PInt 1)))"
proof (rule combine_pars_replication)
  show "map_of ex_experiment ''parameters''
          = Some (VDataDict [(''fixed'', VDict [(''a'', VScalar (PInt 1))]),
                             (''varied'', VTable ex_varied)])"
    by (simp add: ex_experiment_def ex_parameters_def)
  show "map_of [(''fixed'', VDict [(''a'', VScalar (PInt 1))]), (''varied'', VTable ex_varied)]
          ''varied'' = Some (VTable ex_varied)"
    by simp
  show "map_of [(''fixed'', VDict [(''a'', VScalar (PInt 1))]), (''varied'', VTable ex_varied)]
          ''fixed'' = Some (VDict [(''a'', VScalar (PInt 1))])"
    by simp
  show "map_of ex_experiment ''log'' = Some ex_log"
    by (simp add: ex_experiment_def)
  show "subscript ex_log ''iterations'' = Inr (VScalar (PInt 2))"
    by (simp add: ex_log_def getitem_def)
  show "wf_table ex_varied"
    by (simp add: wf_table_def ex_varied_def)
  show "length (rows ex_varied) = 3"
    by (simp add: ex_varied_def)
qed

subsection \<open>The arrangement engine\<close>

lemma check_keys_first_rejected:
  assumes "\<forall>k \<in> set pre. k \<in> set (map fst self) \<and> k \<in> set supported_keys"
  shows "check_keys self (pre @ key # post) =
           (if key \<notin> set (map fst self) then Some (KeyError (no_key_message key))
            else if key \<notin> set supported_keys then Some (KeyError (not_supported_message key))
            else check_keys self post)"
  using assms by (induction pre) auto

text \<open>
  Claim C4.  For an explicit \<^verbatim>\<open>data_keys\<close> argument, the first key that is rejected decides
  the outcome: when it is no key of the container, \<^verbatim>\<open>arrange\<close> raises the \<^verbatim>\<open>KeyError\<close> that
  names it; when it is a key of the container outside \<^verbatim>\<open>variables\<close>, \<^verbatim>\<open>measures\<close>,
  \<^verbatim>\<open>parameters\<close>, \<^verbatim>\<open>arrange\<close> raises the \<^verbatim>\<open>KeyError\<close> that names it and lists the supported
  keys.  In both cases the keys are checked before any section is read, and the
  container is left as it was.
\<close>

theorem arrange_rejects_data_keys:
  assumes "make_list data_keys = pre @ key # post"
    and "\<forall>k \<in> set pre. k \<in> set (map fst self) \<and> k \<in> set supported_keys"
  shows "(key \<notin> set (map fst self) \<longrightarrow>
            arrange self (Some data_keys) var_keys obj_types measure_keys param_keys scenarios index
              = (Inl (KeyError (''DataDict has no key '' @ quoted key)), self))
       \<and> (key \<in> set (map fst self) \<and> key \<notin> {''variables'', ''measures'', ''parameters''} \<longrightarrow>
            arrange self (Some data_keys) var_keys obj_types measure_keys param_keys scenarios index
              = (Inl (KeyError (''DataDict.arrange doesn't support '' @ quoted key
                         @ ''Supported keys are: ['' @ quoted ''variables'' @ '', ''
                         @ quoted ''measures'' @ '', '' @ quoted ''parameters'' @ '']'')), self))"
  using check_keys_first_rejected [OF assms(2), of key post] assms(1)
  by (simp add: arrange_def prepare_keys_def no_key_message_def not_supported_message_def
        repr_list_def supported_keys_def)

theorem arrange_rejects_data_keys_witness:
  "arrange ex_experiment (Some (Lst [''measures'', ''zzz''])) None None None None None False
     = (Inl (KeyError (''DataDict has no key '' @ quoted ''zzz'')), ex_experiment)
   \<and> arrange ex_experiment (Some (Str ''log'')) None None None None None False
     = (Inl (KeyError (''DataDict.arrange doesn't support '' @ quoted ''log''
                         @ ''Supported keys are: ['' @ quoted ''variables'' @ '', ''
                         @ quoted ''measures'' @ '', '' @ quoted ''parameters'' @ '']'')), ex_experiment)"
proof
  have "make_list (Lst [''measures'', ''zzz'']) = [''measures''] @ ''zzz'' # []"
    by simp
  moreover have "\<forall>k \<in> set [''measures'']. k \<in> set (map fst ex_experiment) \<and> k \<in> set supported_keys"
    by (simp add: ex_experiment_def supported_keys_def)
  ultimately show "arrange ex_experiment (Some (Lst [''measures'', ''zzz''])) None None None None None False
     = (Inl (KeyError (''DataDict has no key '' @ quoted ''zzz'')), ex_experiment)"
    using arrange_rejects_data_keys [of "Lst [''measures'', ''zzz'']" "[''measures'']" "''zzz''" "[]" ex_experiment]
    by (simp add: ex_experiment_def)
next
  have "make_list (Str ''log'') = [] @ ''log'' # []"
    by simp
  moreover have "\<forall>k \<in> set []. k \<in> set (map fst ex_experiment) \<and> k \<in> set supported_keys"
    by simp
  ultimately show "arrange ex_experiment (Some (Str ''log'')) None None None None None False
     = (Inl (KeyError (''DataDict.arrange doesn't support '' @ quoted ''log''
                         @ ''Supported keys are: ['' @ quoted ''variables'' @ '', ''
                         @ quoted ''measures'' @ '', '' @ quoted ''parameters'' @ '']'')), ex_experiment)"
    using arrange_rejects_data_keys [of "Str ''log''" "[]" "''log''" "[]" ex_experiment]
    by (simp add: ex_experiment_def)
qed

text \<open>
  Claim C2.  Arranging the parameters alone is to return the frame of the requested
  parameter columns.  With \<^verbatim>\<open>data_keys='parameters'\<close> the call raises for every container
  and all other arguments: no section sets the working frame before the parameters step
  reads its index.  For the single run with the parameters \<^verbatim>\<open>{'a': 1, 'b': 2}\<close> and
  \<^verbatim>\<open>param_keys=['a']\<close> the exception is the \<^verbatim>\<open>AttributeError\<close> of reading \<^verbatim>\<open>None.index\<close>.
\<close>

theorem arrange_parameters_only_raises:
  "(\<exists>e. fst (arrange self (Some (Str ''parameters'')) var_keys obj_types measure_keys
               param_keys scenarios index) = Inl e)
   \<and> fst (arrange ex_run (Some (Str ''parameters'')) None None None (Some [''a'']) None False)
       = Inl (AttributeError (quoted ''NoneType'' @ '' object has no attribute '' @ quoted ''index''))"
proof
  show "\<exists>e. fst (arrange self (Some (Str ''parameters'')) var_keys obj_types measure_keys
               param_keys scenarios index) = Inl e"
    by (auto simp: arrange_def prepare_keys_def process_variables_def process_measures_def
          process_parameters_def join_parameters_def split: sum.splits prod.splits option.splits)
  show "fst (arrange ex_run (Some (Str ''parameters'')) None None None (Some [''a'']) None False)
       = Inl (AttributeError (quoted ''NoneType'' @ '' object has no attribute '' @ quoted ''index''))"
    by (simp add: arrange_def prepare_keys_def process_variables_def process_measures_def
          process_parameters_def join_parameters_def ex_run_def supported_keys_def
          combine_pars_def combine_pars_dfp0_def getattr_def getitem_def one_row_frame_def
          times_iterations_def pd_concat_def reset_index_drop_def set_index_name_def
          project_def pick_def none_has_no_def)
qed

text \<open>
  Claim C9.  \<^verbatim>\<open>arrange\<close> is to leave every section of the container as it was.  On the
  example experiment, arranging the measures with the parameters succeeds and leaves the
  stored frame \<^verbatim>\<open>parameters.varied\<close> with a column \<^verbatim>\<open>a\<close> that it did not have before the
  call: the loop of \<^verbatim>\<open>_combine_pars\<close> over the fixed parameters assigns to the stored
  frame itself.
\<close>

theorem arrange_changes_varied:
  "arrange ex_experiment (Some (Lst [''measures'', ''parameters''])) None None None None None False
     = (Inr (Some \<lparr>index_names = [None], columns = [''run_id'', ''m'', ''b'', ''a''],
                   rows = [([PInt 0], [PInt 0, PInt 7, PInt 10, PInt 1]),
                           ([PInt 1], [PInt 1, PInt 8, PInt 20, PInt 1]),
                           ([PInt 2], [PInt 2, PInt 9, PInt 30, PInt 1]),
                           ([PInt 3], [PInt 3, PInt 7, PInt 10, PInt 1]),
                           ([PInt 4], [PInt 4, PInt 8, PInt 20, PInt 1]),
                           ([PInt 5], [PInt 5, PInt 9, PInt 30, PInt 1])]\<rparr>),
        [(''log'', ex_log),
         (''parameters'',
          VDataDict
            [(''fixed'', VDict [(''a'', VScalar (PInt 1))]),
             (''varied'',
              VTable \<lparr>index_names = [None], columns = [''b'', ''a''],
                      rows = [([PInt 0], [PInt 10, PInt 1]), ([PInt 1], [PInt 20, PInt 1]),
                              ([PInt 2], [PInt 30, PInt 1])]\<rparr>)]),
         (''measures'', VTable ex_measures)])
   \<and> map_of ex_experiment ''parameters''
        = Some (VDataDict
            [(''fixed'', VDict [(''a'', VScalar (PInt 1))]),
             (''varied'',
              VTable \<lparr>index_names = [None], columns = [''b''],
                      rows = [([PInt 0], [PInt 10]), ([PInt 1], [PInt 20]),
                              ([PInt 2], [PInt 30])]\<rparr>)])
   \<and> snd (arrange ex_experiment (Some (Lst [''measures'', ''parameters'']))
             None None None None None False) \<noteq> ex_experiment"
  by code_simp

subsection \<open>The variable combiner\<close>

text \<open>
  Claim C6.  For a variables section that is a single frame, or a \<^verbatim>\<open>DataDict\<close> holding
  exactly one frame, the variable combiner returns that frame itself, whatever the
  filters: the same contents and the same index, with no level added.
\<close>

theorem combine_vars_single:
  "(map_of self ''variables'' = Some (VTable df) \<longrightarrow>
      combine_vars self obj_types var_keys = Inr (VTable df))
   \<and> (map_of self ''variables'' = Some (VDataDict [(k, VTable df)]) \<longrightarrow>
      combine_vars self obj_types var_keys = Inr (VTable df))"
  by (simp add: combine_vars_def getitem_def)

theorem combine_vars_single_witness:
  "combine_vars [(''variables'', VTable ex_measures)] (Some (Str ''agent'')) (Some [''x''])
     = Inr (VTable ex_measures)
   \<and> combine_vars [(''variables'', VDataDict [(''agent'', VTable ex_measures)])] None None
     = Inr (VTable ex_measures)"
  using combine_vars_single [of "[(''variables'', VTable ex_measures)]" ex_measures
          "Some (Str ''agent'')" "Some [''x'']" "''agent''"]
        combine_vars_single [of "[(''variables'', VDataDict [(''agent'', VTable ex_measures)])]"
          ex_measures None None "''agent''"]
  by simp

lemma length_with_key: "length (with_key k rs) = length rs"
  by (simp add: with_key_def)

lemma length_realign: "length (realign cols df) = length (rows df)"
  by (simp add: realign_def)

lemma outer_with_key:
  "map (\<lambda>r. case fst r of [] \<Rightarrow> None | l # ls \<Rightarrow> Some l) (with_key k rs)
     = replicate (length rs) (Some (PStr k))"
  by (induction rs) (auto simp: with_key_def)

lemma pd_concat_dict_two:
  assumes "length (index_names ta) = length (index_names tb)"
    and "columns ta = columns tb \<or> distinct (columns ta) \<and> distinct (columns tb)"
  shows "\<exists>df. pd_concat_dict [(ka, ta), (kb, tb)] = Inr df
           \<and> index_names df \<noteq> [] \<and> hd (index_names df) = None
           \<and> outer_level_values df
                = replicate (length (rows ta)) (Some (PStr ka))
                    @ replicate (length (rows tb)) (Some (PStr kb))"
  using assms
  by (auto simp: pd_concat_dict_def Let_def outer_level_values_def outer_with_key length_realign)

text \<open>
  Claim C5, as amended.  For a variables section that is a container of two frames under
  the keys \<open>ka\<close> and \<open>kb\<close>, with indexes of the same number of levels and with the same
  columns or else distinct labels in each, and without filters, the variable combiner
  returns one frame whose outermost index level is named \<^verbatim>\<open>obj_type\<close>; the rows of the first
  frame carry the label \<open>ka\<close> there and are followed by the rows of the second frame, which
  carry \<open>kb\<close>; so the row count is the sum of the two row counts, and the level takes
  exactly the values \<open>ka\<close> and \<open>kb\<close> when neither frame is empty.
\<close>

theorem combine_vars_two_types:
  assumes "map_of self ''variables'' = Some v"
    and "v = VDataDict [(ka, VTable ta), (kb, VTable tb)] \<or> v = VDict [(ka, VTable ta), (kb, VTable tb)]"
    and "length (index_names ta) = length (index_names tb)"
    and "columns ta = columns tb \<or> distinct (columns ta) \<and> distinct (columns tb)"
  shows "\<exists>df. combine_vars self None None = Inr (VTable df)
           \<and> index_names df \<noteq> [] \<and> hd (index_names df) = Some ''obj_type''
           \<and> outer_level_values df
                = replicate (length (rows ta)) (Some (PStr ka))
                    @ replicate (length (rows tb)) (Some (PStr kb))
           \<and> length (rows df) = length (rows ta) + length (rows tb)
           \<and> (rows ta \<noteq> [] \<and> rows tb \<noteq> [] \<longrightarrow>
                set (outer_level_values df) = {Some (PStr ka), Some (PStr kb)})"
proof -
  from pd_concat_dict_two [OF assms(3,4)] obtain df0 where
    df0: "pd_concat_dict [(ka, ta), (kb, tb)] = Inr df0"
    and names: "index_names df0 \<noteq> []"
    and outer: "outer_level_values df0
                  = replicate (length (rows ta)) (Some (PStr ka))
                      @ replicate (length (rows tb)) (Some (PStr kb))"
    by blast
  let ?df = "set_names_level0 df0 ''obj_type''"
  have res: "combine_vars self None None = Inr (VTable ?df)"
    using assms(1,2) df0
    by (auto simp: combine_vars_def getitem_def select_entries_def create_dataframe_def)
  have outer': "outer_level_values ?df
                  = replicate (length (rows ta)) (Some (PStr ka))
                      @ replicate (length (rows tb)) (Some (PStr kb))"
    using outer by (simp add: outer_level_values_def set_names_level0_def)
  have len: "length (rows ?df) = length (rows ta) + length (rows tb)"
  proof -
    have "length (rows ?df) = length (outer_level_values ?df)"
      by (simp add: outer_level_values_def)
    then show ?thesis
      by (simp add: outer')
  qed
  have exact: "rows ta \<noteq> [] \<and> rows tb \<noteq> [] \<longrightarrow>
                 set (outer_level_values ?df) = {Some (PStr ka), Some (PStr kb)}"
    unfolding outer' by auto
  have "index_names ?df \<noteq> [] \<and> hd (index_names ?df) = Some ''obj_type''"
    by (simp add: set_names_level0_def)
  with res outer' len exact show ?thesis
    by blast
qed

theorem combine_vars_two_types_witness:
  "\<exists>df. combine_vars [(''variables'', VDataDict [(''B'', VTable ex_vars_b), (''C'', VTable ex_vars_c)])]
           None None = Inr (VTable df)
     \<and> index_names df \<noteq> [] \<and> hd (index_names df) = Some ''obj_type''
     \<and> outer_level_values df
          = replicate (length (rows ex_vars_b)) (Some (PStr ''B''))
              @ replicate (length (rows ex_vars_c)) (Some (PStr ''C''))
     \<and> length (rows df) = length (rows ex_vars_b) + length (rows ex_vars_c)
     \<and> (rows ex_vars_b \<noteq> [] \<and> rows ex_vars_c \<noteq> [] \<longrightarrow>
          set (outer_level_values df) = {Some (PStr ''B''), Some (PStr ''C'')})"
proof (rule combine_vars_two_types)
  show "map_of [(''variables'', VDataDict [(''B'', VTable ex_vars_b), (''C'', VTable ex_vars_c)])]
          ''variables'' = Some (VDataDict [(''B'', VTable ex_vars_b), (''C'', VTable ex_vars_c)])"
    by simp
  show "VDataDict [(''B'', VTable ex_vars_b), (''C'', VTable ex_vars_c)]
          = VDataDict [(''B'', VTable ex_vars_b), (''C'', VTable ex_vars_c)]
        \<or> VDataDict [(''B'', VTable ex_vars_b), (''C'', VTable ex_vars_c)]
          = VDict [(''B'', VTable ex_vars_b), (''C'', VTable ex_vars_c)]"
    by simp
  show "length (index_names ex_vars_b) = length (index_names ex_vars_c)"
    by (simp add: ex_vars_b_def ex_vars_c_def)
  show "columns ex_vars_b = columns ex_vars_c
        \<or> distinct (columns ex_vars_b) \<and> distinct (columns ex_vars_c)"
    by (simp add: ex_vars_b_def ex_vars_c_def)
qed

text \<open>The claim as stated fails when a frame is empty: no row carries its key.\<close>

theorem combine_vars_two_types_counterexample:
  "combine_vars ex_two_types None None
     = Inr (VTable \<lparr>index_names = [Some ''obj_type'', Some ''obj_id'', Some ''t''],
                    columns = [''x'', ''y''],
                    rows = [([PStr ''B'', PInt 1, PInt 0], [PInt 5, PInt 6]),
                            ([PStr ''B'', PInt 1, PInt 1], [PInt 7, PInt 8])]\<rparr>)
   \<and> set (outer_level_values
             \<lparr>index_names = [Some ''obj_type'', Some ''obj_id'', Some ''t''],
              columns = [''x'', ''y''],
              rows = [([PStr ''B'', PInt 1, PInt 0], [PInt 5, PInt 6]),
                      ([PStr ''B'', PInt 1, PInt 1], [PInt 7, PInt 8])]\<rparr>)
       \<noteq> {Some (PStr ''A''), Some (PStr ''B'')}"
  by code_simp

lemma select_var_keys_frames:
  "frames d = Some kdfs \<Longrightarrow>
   \<exists>d'. select_var_keys ks d = Inr d' \<and> frames d' = Some (filter (has_any ks) kdfs)"
proof (induction d arbitrary: kdfs)
  case Nil
  then show ?case by simp
next
  case (Cons e d)
  obtain k v where e: "e = (k, v)" by (cases e)
  from Cons.prems e obtain df rest where v: "v = VTable df"
    and rest: "frames d = Some rest" and kdfs: "kdfs = (k, df) # rest"
    by (auto split: pyobj.splits option.splits)
  from Cons.IH [OF rest] obtain d' where
    "select_var_keys ks d = Inr d'" "frames d' = Some (filter (has_any ks) rest)"
    by blast
  then show ?case
    by (simp add: e v kdfs has_any_def [abs_def])
qed

lemma single_entry_none:
  "length d \<noteq> 1 \<Longrightarrow> single_entry (VDataDict d) = None"
  by (cases "VDataDict d" rule: single_entry.cases) auto

lemma rows_pd_concat_dict:
  assumes "pd_concat_dict kdfs = Inr df"
  shows "length (rows df) = sum_list (map (\<lambda>e. length (rows (snd e))) kdfs)"
proof -
  have a: "length (concat (map (\<lambda>(k, df). with_key k (rows df)) kdfs))
            = sum_list (map (\<lambda>e. length (rows (snd e))) kdfs)"
    by (induction kdfs) (auto simp: length_with_key)
  have b: "length (concat (map (\<lambda>(k, df). with_key k (realign cols df)) kdfs))
            = sum_list (map (\<lambda>e. length (rows (snd e))) kdfs)" for cols
    by (induction kdfs) (auto simp: length_with_key length_realign)
  from assms show ?thesis
    by (auto simp: pd_concat_dict_def Let_def a b split: if_splits)
qed

lemma project_all_present:
  assumes "\<forall>k \<in> set ks. k \<in> set (columns df)"
  shows "\<exists>df'. project df ks = Inr df' \<and> length (rows df') = length (rows df)
           \<and> index_names df' = index_names df
           \<and> set (columns df') \<subseteq> set ks"
proof -
  have "filter (\<lambda>k. k \<notin> set (columns df)) ks = []"
    using assms by (simp add: filter_empty_conv)
  moreover have "set (pick ks (columns df) (columns df)) \<subseteq> set ks"
    by (auto simp: pick_def zip_same)
  ultimately show ?thesis
    by (simp add: project_def Let_def)
qed

lemma project_some_missing:
  assumes "\<exists>k \<in> set ks. k \<notin> set (columns df)"
  shows "project df ks = Inl (LabelsNotFound (filter (\<lambda>k. k \<notin> set (columns df)) ks))"
proof -
  have "filter (\<lambda>k. k \<notin> set (columns df)) ks \<noteq> []"
    using assms by (simp add: filter_empty_conv)
  then show ?thesis
    by (simp add: project_def Let_def)
qed

text \<open>
  Claim C7.  With \<^verbatim>\<open>var_keys\<close> given for a variables container of several frames, the
  frames that have none of the requested columns are left out of the concatenation and
  raise nothing: the result is built from the other frames alone.  When a requested
  column is no column of the concatenated frame, the final selection raises the
  \<^verbatim>\<open>KeyError\<close> that names the missing columns, and \<^verbatim>\<open>_combine_vars\<close> raises it in turn;
  otherwise \<^verbatim>\<open>_combine_vars\<close> returns the frame of the requested columns, with as many rows
  as the frames that were kept have together.
\<close>

theorem combine_vars_var_keys:
  assumes "map_of self ''variables'' = Some v"
    and "v = VDict d \<or> v = VDataDict d \<and> length d \<noteq> 1"
    and "frames d = Some kdfs"
    and "ks \<noteq> []"
    and "pd_concat_dict (filter (has_any ks) kdfs) = Inr df0"
  shows "((\<exists>k \<in> set ks. k \<notin> set (columns df0)) \<longrightarrow>
            combine_vars self None (Some ks)
              = Inl (LabelsNotFound (filter (\<lambda>k. k \<notin> set (columns df0)) ks))
            \<and> filter (\<lambda>k. k \<notin> set (columns df0)) ks \<noteq> [])
       \<and> ((\<forall>k \<in> set ks. k \<in> set (columns df0)) \<longrightarrow>
            (\<exists>df. combine_vars self None (Some ks) = Inr (VTable df)
               \<and> set (columns df) \<subseteq> set ks
               \<and> length (rows df)
                    = sum_list (map (\<lambda>e. length (rows (snd e))) (filter (has_any ks) kdfs))))"
proof -
  from select_var_keys_frames [OF assms(3), of ks] obtain d' where
    d': "select_var_keys ks d = Inr d'" "frames d' = Some (filter (has_any ks) kdfs)"
    by blast
  have single: "single_entry v = None"
    using assms(2) by (auto simp: single_entry_none)
  have sel: "select_entries v None (Some ks) = Inr d'"
    using assms(2) d' by (auto simp: select_entries_def)
  let ?df = "set_names_level0 df0 ''obj_type''"
  have cv: "combine_vars self None (Some ks) = map_sum id VTable (project ?df ks)"
    using assms(1,2,4,5) single sel d'
    by (auto simp: combine_vars_def getitem_def create_dataframe_def)
  have cols: "columns ?df = columns df0" and rws: "rows ?df = rows df0"
    by (simp_all add: set_names_level0_def)
  show ?thesis
  proof (intro conjI impI)
    assume "\<exists>k \<in> set ks. k \<notin> set (columns df0)"
    then show "combine_vars self None (Some ks)
                = Inl (LabelsNotFound (filter (\<lambda>k. k \<notin> set (columns df0)) ks))"
      using project_some_missing [of ks ?df] by (simp add: cv cols)
  next
    assume "\<exists>k \<in> set ks. k \<notin> set (columns df0)"
    then show "filter (\<lambda>k. k \<notin> set (columns df0)) ks \<noteq> []"
      by (simp add: filter_empty_conv)
  next
    assume "\<forall>k \<in> set ks. k \<in> set (columns df0)"
    then obtain df' where "project ?df ks = Inr df'"
      "length (rows df') = length (rows ?df)" "set (columns df') \<subseteq> set ks"
      using project_all_present [of ks ?df] by (auto simp: cols)
    then show "\<exists>df. combine_vars self None (Some ks) = Inr (VTable df)
               \<and> set (columns df) \<subseteq> set ks
               \<and> length (rows df)
                    = sum_list (map (\<lambda>e. length (rows (snd e))) (filter (has_any ks) kdfs))"
      using rows_pd_concat_dict [OF assms(5)] by (simp add: cv rws)
  qed
qed

theorem combine_vars_var_keys_witness:
  "combine_vars ex_three_types None (Some [''x'', ''w'']) = Inl (LabelsNotFound [''w''])
   \<and> (\<exists>df. combine_vars ex_three_types None (Some [''x'']) = Inr (VTable df)
          \<and> set (columns df) \<subseteq> {''x''} \<and> length (rows df) = 3)"
proof -
  let ?d = "[(''B'', VTable ex_vars_b), (''C'', VTable ex_vars_c), (''D'', VTable ex_vars_d)]"
  let ?kdfs = "[(''B'', ex_vars_b), (''C'', ex_vars_c), (''D'', ex_vars_d)]"
  let ?df0 = "\<lparr>index_names = [None, Some ''obj_id'', Some ''t''], columns = [''x'', ''y''],
          rows = [([PStr ''B'', PInt 1, PInt 0], [PInt 5, PInt 6]),
                  ([PStr ''B'', PInt 1, PInt 1], [PInt 7, PInt 8]),
                  ([PStr ''C'', PInt 2, PInt 0], [PInt 1, PNaN])]\<rparr>"
  have h1: "map_of ex_three_types ''variables'' = Some (VDataDict ?d)"
    by (simp add: ex_three_types_def)
  have h2: "VDataDict ?d = VDict ?d \<or> VDataDict ?d = VDataDict ?d \<and> length ?d \<noteq> 1"
    by simp
  have h3: "frames ?d = Some ?kdfs"
    by simp
  have h4: "[''x'', ''w''] \<noteq> []" and h4': "[''x''] \<noteq> []"
    by simp_all
  have h5: "pd_concat_dict (filter (has_any [''x'', ''w'']) ?kdfs) = Inr ?df0"
    by code_simp
  have h5': "pd_concat_dict (filter (has_any [''x'']) ?kdfs) = Inr ?df0"
    by code_simp
  have kept: "filter (has_any [''x'']) ?kdfs = [(''B'', ex_vars_b), (''C'', ex_vars_c)]"
    by code_simp
  from combine_vars_var_keys [OF h1 h2 h3 h4 h5]
  have a: "combine_vars ex_three_types None (Some [''x'', ''w'']) = Inl (LabelsNotFound [''w''])"
    by simp
  from combine_vars_var_keys [OF h1 h2 h3 h4' h5']
  have b: "\<exists>df. combine_vars ex_three_types None (Some [''x'']) = Inr (VTable df)
          \<and> set (columns df) \<subseteq> {''x''} \<and> length (rows df) = 3"
    unfolding kept by (simp add: ex_vars_b_def ex_vars_c_def numeral_3_eq_3)
  from a b show ?thesis ..
qed

end
